theory Spec2Isabelle
  imports Complex_Main
begin

section \<open>kinematics2d: vectors and kinematic states in the plane\<close>

text \<open>
  The sources are \<^verbatim>\<open>vector2d.py\<close> (class \<^verbatim>\<open>Vector2D\<close>) and \<^verbatim>\<open>kinematics.py\<close>
  (class \<^verbatim>\<open>Kinematics\<close>). Both compute on 64-bit floats. The development reads them in
  two ways, over the same records:

  \<^item> the exact reading, over \<^typ>\<open>real\<close>: every float is a finite number and the
    arithmetic does not round. A float division by zero yields an infinity or a NaN, which
    is no real number; the model returns \<open>Inl NonFinite\<close> there instead of HOL's
    \<open>a / 0 = 0\<close>. An exception of the Python library is \<open>Inl\<close> of its name.
  \<^item> the IEEE reading, over the datatype \<open>f64\<close> with both zeros, both infinities and
    NaN, for the two operations whose description depends on them: the division of a
    vector by a scalar and \<^verbatim>\<open>delta_orientation_to_stop\<close>. Its finite values are exact
    too: they are not rounded and do not overflow.

  \<^verbatim>\<open>kinematics.py\<close> names its vector class \<^verbatim>\<open>km.Vector\<close>; the class of that interface
  among the sources is \<^verbatim>\<open>Vector2D\<close>, which is used for it.
\<close>

datatype fault = NonFinite | ValueError | ZeroDivisionError

subsection \<open>Vector2D\<close>

record 'a Vector2D =
  x :: 'a
  y :: 'a

text \<open>\<^verbatim>\<open>from_copy\<close> builds a new vector from the two components of its source.\<close>

definition from_copy :: "'a Vector2D \<Rightarrow> 'a Vector2D" where
  "from_copy source = \<lparr>x = x source, y = y source\<rparr>"

definition zeros :: "real Vector2D" where
  "zeros = \<lparr>x = 0, y = 0\<rparr>"

text \<open>\<^verbatim>\<open>__add__\<close>, \<^verbatim>\<open>__sub__\<close>, \<^verbatim>\<open>__mul__\<close>, \<^verbatim>\<open>__neg__\<close>: componentwise, as NumPy does.\<close>

definition vec_add :: "real Vector2D \<Rightarrow> real Vector2D \<Rightarrow> real Vector2D" where
  "vec_add self other = \<lparr>x = x self + x other, y = y self + y other\<rparr>"

definition vec_sub :: "real Vector2D \<Rightarrow> real Vector2D \<Rightarrow> real Vector2D" where
  "vec_sub self other = \<lparr>x = x self - x other, y = y self - y other\<rparr>"

definition vec_mul :: "real Vector2D \<Rightarrow> real \<Rightarrow> real Vector2D" where
  "vec_mul self other = \<lparr>x = x self * other, y = y self * other\<rparr>"

definition vec_neg :: "real Vector2D \<Rightarrow> real Vector2D" where
  "vec_neg self = \<lparr>x = - x self, y = - y self\<rparr>"

text \<open>
  \<^verbatim>\<open>__truediv__\<close> divides the array by the scalar with no guard. With a zero scalar NumPy
  returns infinities and NaNs (and warns); nothing is raised.
\<close>

definition vec_truediv :: "real Vector2D \<Rightarrow> real \<Rightarrow> fault + real Vector2D" where
  "vec_truediv self other =
     (if other = 0 then Inl NonFinite
      else Inr \<lparr>x = x self / other, y = y self / other\<rparr>)"

text \<open>\<^verbatim>\<open>magnitude\<close> is \<^verbatim>\<open>np.linalg.norm\<close> of the array; \<^verbatim>\<open>__abs__\<close> returns it.\<close>

definition magnitude :: "real Vector2D \<Rightarrow> real" where
  "magnitude self = sqrt (x self * x self + y self * y self)"

definition vec_abs :: "real Vector2D \<Rightarrow> real" where
  "vec_abs self = magnitude self"

definition dot :: "real Vector2D \<Rightarrow> real Vector2D \<Rightarrow> real" where
  "dot self other = x self * x other + y self * y other"

text \<open>
  \<^verbatim>\<open>rotated\<close> multiplies the matrix \<^verbatim>\<open>[[cos a, -1 * sin a], [sin a, cos a]]\<close> with the
  array.
\<close>

definition rotated :: "real Vector2D \<Rightarrow> real \<Rightarrow> real Vector2D" where
  "rotated self angle =
     \<lparr>x = cos angle * x self + (-1 * sin angle) * y self,
      y = sin angle * x self + cos angle * y self\<rparr>"

definition normalized :: "real Vector2D \<Rightarrow> fault + real Vector2D" where
  "normalized self =
     (let m = magnitude self
      in if m \<noteq> 0 then vec_truediv self m else Inr zeros)"

text \<open>
  \<^verbatim>\<open>round(cos, 4)\<close>: the nearest multiple of \<open>1 / 10000\<close>, a tie going to the even
  multiple. \<^verbatim>\<open>math.acos\<close> raises \<^verbatim>\<open>ValueError\<close> outside \<open>[-1, 1]\<close>.
\<close>

definition rint :: "real \<Rightarrow> int" where
  "rint r =
     (let f = \<lfloor>r\<rfloor>; d = r - of_int f
      in if d < 1 / 2 then f
         else if 1 / 2 < d then f + 1
         else if even f then f else f + 1)"

definition round4 :: "real \<Rightarrow> real" where
  "round4 c = of_int (rint (c * 10000)) / 10000"

definition float_div :: "real \<Rightarrow> real \<Rightarrow> fault + real" where
  "float_div a b = (if b = 0 then Inl NonFinite else Inr (a / b))"

definition math_acos :: "real \<Rightarrow> fault + real" where
  "math_acos c = (if -1 \<le> c \<and> c \<le> 1 then Inr (arccos c) else Inl ValueError)"

definition angle_from :: "real Vector2D \<Rightarrow> real Vector2D \<Rightarrow> fault + real" where
  "angle_from self other =
     (if vec_abs self = 0 \<or> vec_abs other = 0 then Inr 0
      else case float_div (dot other self) (vec_abs other * vec_abs self) of
             Inl e \<Rightarrow> Inl e
           | Inr c \<Rightarrow> math_acos (round4 c))"

subsection \<open>Pose\<close>

text \<open>
  Modelled from the spec: the class \<^verbatim>\<open>Pose\<close> is not among the sources. The spec gives
  it two fields, a position and an orientation, and a factory \<^verbatim>\<open>zeros()\<close> returning
  \<^verbatim>\<open>(Vector.zeros(), 0.0)\<close>.
\<close>

record 'a Pose =
  pose_position :: "'a Vector2D"
  pose_orientation :: 'a

definition Pose_zeros :: "real Pose" where
  "Pose_zeros = \<lparr>pose_position = zeros, pose_orientation = 0\<rparr>"

subsection \<open>Kinematics\<close>

record 'a Kinematics =
  position :: "'a Vector2D"
  orientation :: 'a
  velocity :: "'a Vector2D"
  rotation :: 'a

text \<open>The constructor copies the two vectors it is given.\<close>

definition Kinematics_init ::
  "'a Vector2D \<Rightarrow> 'a \<Rightarrow> 'a Vector2D \<Rightarrow> 'a \<Rightarrow> 'a Kinematics" where
  "Kinematics_init p ort v rot =
     \<lparr>position = from_copy p, orientation = ort, velocity = from_copy v, rotation = rot\<rparr>"

definition from_pose :: "'a Pose \<Rightarrow> 'a Vector2D \<Rightarrow> 'a \<Rightarrow> 'a Kinematics" where
  "from_pose pose v rot = Kinematics_init (pose_position pose) (pose_orientation pose) v rot"

definition kin_zeros :: "real Kinematics" where
  "kin_zeros = from_pose Pose_zeros zeros 0"

text \<open>\<^verbatim>\<open>Kinematics.__add__\<close> and \<^verbatim>\<open>Kinematics.__sub__\<close>.\<close>

definition kin_add :: "real Kinematics \<Rightarrow> real Kinematics \<Rightarrow> real Kinematics" where
  "kin_add self other =
     Kinematics_init
       (vec_add (position self) (rotated (position other) (orientation self)))
       (orientation self + orientation other)
       (vec_add (velocity self) (rotated (velocity other) (orientation self)))
       (rotation self + rotation other)"

definition kin_sub :: "real Kinematics \<Rightarrow> real Kinematics \<Rightarrow> real Kinematics" where
  "kin_sub self other =
     Kinematics_init
       (rotated (vec_sub (position self) (position other)) (- orientation other))
       (orientation self - orientation other)
       (rotated (vec_sub (velocity self) (velocity other)) (- orientation other))
       (rotation self - rotation other)"

definition updated :: "real Kinematics \<Rightarrow> real \<Rightarrow> real Kinematics" where
  "updated self delta_time =
     (let delta_orientation = rotation self * delta_time;
          new_orientation = orientation self + delta_orientation;
          delta_position = vec_mul (velocity self) delta_time;
          new_position = vec_add (position self) (rotated delta_position delta_orientation)
      in Kinematics_init new_position new_orientation (velocity self) (rotation self))"

definition delta_position_to_stop :: "real Kinematics \<Rightarrow> real \<Rightarrow> fault + real Vector2D" where
  "delta_position_to_stop self max_linear_decel_magnitude =
     (case normalized (velocity self) of
        Inl e \<Rightarrow> Inl e
      | Inr n \<Rightarrow>
          vec_truediv (vec_mul n ((vec_abs (velocity self))\<^sup>2))
            (2 * max_linear_decel_magnitude))"

section \<open>The IEEE reading\<close>

text \<open>
  A 64-bit float is a finite number, one of the two zeros, one of the two infinities or
  NaN. \<open>Fin 0\<close> is the positive zero and \<open>NegZero\<close> the negative one; \<open>Fin r\<close> with
  \<open>r \<noteq> 0\<close> is the number \<open>r\<close>.
\<close>

datatype f64 = Fin real | NegZero | PInf | NInf | NaN

definition is_nan :: "f64 \<Rightarrow> bool" where
  "is_nan a = (a = NaN)"

definition is_inf :: "f64 \<Rightarrow> bool" where
  "is_inf a = (a = PInf \<or> a = NInf)"

definition is_zero :: "f64 \<Rightarrow> bool" where
  "is_zero a = (a = Fin 0 \<or> a = NegZero)"

definition non_finite :: "f64 \<Rightarrow> bool" where
  "non_finite a = (is_inf a \<or> is_nan a)"

fun sign_bit :: "f64 \<Rightarrow> bool" where
  "sign_bit (Fin r) = (r < 0)"
| "sign_bit NegZero = True"
| "sign_bit PInf = False"
| "sign_bit NInf = True"
| "sign_bit NaN = False"

fun val :: "f64 \<Rightarrow> real" where
  "val (Fin r) = r"
| "val NegZero = 0"
| "val PInf = 0"
| "val NInf = 0"
| "val NaN = 0"

text \<open>
  Multiplication and division of IEEE 754: the sign of a zero or infinite result is the
  exclusive or of the operands' signs; \<open>inf * 0\<close>, \<open>inf / inf\<close> and \<open>0 / 0\<close> are NaN; a
  nonzero number divided by a zero is an infinity.
\<close>

definition signed_zero :: "bool \<Rightarrow> f64" where
  "signed_zero s = (if s then NegZero else Fin 0)"

definition signed_inf :: "bool \<Rightarrow> f64" where
  "signed_inf s = (if s then NInf else PInf)"

definition ieee_mul :: "f64 \<Rightarrow> f64 \<Rightarrow> f64" where
  "ieee_mul a b =
     (if is_nan a \<or> is_nan b then NaN
      else if (is_inf a \<and> is_zero b) \<or> (is_zero a \<and> is_inf b) then NaN
      else if is_inf a \<or> is_inf b then signed_inf (sign_bit a \<noteq> sign_bit b)
      else if val a * val b = 0 then signed_zero (sign_bit a \<noteq> sign_bit b)
      else Fin (val a * val b))"

definition ieee_div :: "f64 \<Rightarrow> f64 \<Rightarrow> f64" where
  "ieee_div a b =
     (if is_nan a \<or> is_nan b then NaN
      else if (is_inf a \<and> is_inf b) \<or> (is_zero a \<and> is_zero b) then NaN
      else if is_inf a \<or> is_zero b then signed_inf (sign_bit a \<noteq> sign_bit b)
      else if is_inf b \<or> is_zero a then signed_zero (sign_bit a \<noteq> sign_bit b)
      else Fin (val a / val b))"

text \<open>
  The operations of Python's \<^verbatim>\<open>float\<close> that \<^verbatim>\<open>delta_orientation_to_stop\<close> uses:
  \<^verbatim>\<open>abs\<close>, unary minus, \<^verbatim>\<open>** 2\<close>, the comparison \<^verbatim>\<open>>\<close> and \<^verbatim>\<open>/\<close>. Python's division raises
  \<^verbatim>\<open>ZeroDivisionError\<close> when the divisor is a zero of either sign.
\<close>

fun py_abs :: "f64 \<Rightarrow> f64" where
  "py_abs (Fin r) = Fin \<bar>r\<bar>"
| "py_abs NegZero = Fin 0"
| "py_abs PInf = PInf"
| "py_abs NInf = PInf"
| "py_abs NaN = NaN"

fun py_neg :: "f64 \<Rightarrow> f64" where
  "py_neg (Fin r) = (if r = 0 then NegZero else Fin (- r))"
| "py_neg NegZero = Fin 0"
| "py_neg PInf = NInf"
| "py_neg NInf = PInf"
| "py_neg NaN = NaN"

definition py_pow2 :: "f64 \<Rightarrow> f64" where
  "py_pow2 a = ieee_mul a a"

definition py_gt :: "f64 \<Rightarrow> f64 \<Rightarrow> bool" where
  "py_gt a b =
     (if is_nan a \<or> is_nan b then False
      else if a = PInf then b \<noteq> PInf
      else if b = NInf then a \<noteq> NInf
      else if a = NInf \<or> b = PInf then False
      else val b < val a)"

definition py_div :: "f64 \<Rightarrow> f64 \<Rightarrow> fault + f64" where
  "py_div a b = (if is_zero b then Inl ZeroDivisionError else Inr (ieee_div a b))"

text \<open>
  NumPy's division of an array by a scalar is the IEEE division of each component; with
  a zero divisor it warns and returns the infinity or NaN, it raises nothing.
\<close>

definition np_div :: "f64 \<Rightarrow> f64 \<Rightarrow> f64" where
  "np_div a b = ieee_div a b"

definition vec_truediv_ieee :: "f64 Vector2D \<Rightarrow> f64 \<Rightarrow> f64 Vector2D" where
  "vec_truediv_ieee self other = \<lparr>x = np_div (x self) other, y = np_div (y self) other\<rparr>"

text \<open>
  \<^verbatim>\<open>Kinematics.delta_orientation_to_stop\<close>, on the \<^verbatim>\<open>float\<close> that \<^verbatim>\<open>rotation\<close> holds.
\<close>

definition delta_orientation_to_stop :: "f64 Kinematics \<Rightarrow> f64 \<Rightarrow> fault + f64" where
  "delta_orientation_to_stop self max_angular_decel_magnitude =
     (case py_div (py_pow2 (py_abs (rotation self)))
             (ieee_mul (Fin 2) max_angular_decel_magnitude) of
        Inl e \<Rightarrow> Inl e
      | Inr v \<Rightarrow> Inr (if py_gt (rotation self) (Fin 0) then v else py_neg v))"

section \<open>Properties\<close>

subsection \<open>Vectors\<close>

lemma from_copy_id: "from_copy v = v"
  by (simp add: from_copy_def)

lemma vec_add_sub_cancel: "vec_sub (vec_add p q) p = q"
  by (simp add: vec_add_def vec_sub_def)

lemma vec_add_sub_cancel2: "vec_add p (vec_sub q p) = q"
  by (simp add: vec_add_def vec_sub_def)

lemma vec_add_zeros: "vec_add zeros v = v" "vec_add v zeros = v"
  by (simp_all add: vec_add_def zeros_def)

lemma rotated_zero_angle: "rotated v 0 = v"
  by (simp add: rotated_def)

lemma rotated_zeros: "rotated zeros a = zeros"
  by (simp add: rotated_def zeros_def)

text \<open>Rotating back: the two components, for any pair \<open>c, s\<close> on the unit circle.\<close>

lemma rot_cancel:
  fixes c s p q :: real
  assumes "c * c + s * s = 1"
  shows "c * (c * p + (-1 * s) * q) + (-1 * - s) * (s * p + c * q) = p"
    and "- s * (c * p + (-1 * s) * q) + c * (s * p + c * q) = q"
proof -
  have "c * (c * p + (-1 * s) * q) + (-1 * - s) * (s * p + c * q) = (c * c + s * s) * p"
    by (simp add: algebra_simps)
  then show "c * (c * p + (-1 * s) * q) + (-1 * - s) * (s * p + c * q) = p"
    using assms by simp
  have "- s * (c * p + (-1 * s) * q) + c * (s * p + c * q) = (c * c + s * s) * q"
    by (simp add: algebra_simps)
  then show "- s * (c * p + (-1 * s) * q) + c * (s * p + c * q) = q"
    using assms by simp
qed

lemma rotated_back: "rotated (rotated v a) (- a) = v"
  using rot_cancel [of "cos a" "sin a" "x v" "y v"]
  by (simp add: rotated_def)

lemma rotated_forth: "rotated (rotated v (- a)) a = v"
  using rotated_back [of v "- a"] by simp

lemma magnitude_nonneg: "0 \<le> magnitude v"
  by (simp add: magnitude_def)

lemma magnitude_zero_iff: "magnitude v = 0 \<longleftrightarrow> x v = 0 \<and> y v = 0"
  by (simp add: magnitude_def sum_squares_eq_zero_iff flip: power2_eq_square)

lemma magnitude_vec_mul: "magnitude (vec_mul v c) = \<bar>c\<bar> * magnitude v"
proof -
  have "x v * c * (x v * c) + y v * c * (y v * c) = c\<^sup>2 * (x v * x v + y v * y v)"
    by (simp add: power2_eq_square algebra_simps)
  then show ?thesis
    by (simp add: magnitude_def vec_mul_def real_sqrt_mult)
qed

lemma vec_truediv_eq: "c \<noteq> 0 \<Longrightarrow> vec_truediv v c = Inr (vec_mul v (1 / c))"
  by (simp add: vec_truediv_def vec_mul_def)

lemma normalized_nonzero:
  assumes "magnitude v \<noteq> 0"
  shows "normalized v = Inr (vec_mul v (1 / magnitude v))"
    and "magnitude (vec_mul v (1 / magnitude v)) = 1"
    and "0 < 1 / magnitude v"
proof -
  have pos: "0 < magnitude v"
    using assms magnitude_nonneg [of v] by simp
  show "normalized v = Inr (vec_mul v (1 / magnitude v))"
    using assms by (simp add: normalized_def Let_def vec_truediv_eq)
  show "magnitude (vec_mul v (1 / magnitude v)) = 1"
    using pos by (simp add: magnitude_vec_mul)
  show "0 < 1 / magnitude v"
    using pos by simp
qed

lemma normalized_zero: "magnitude v = 0 \<Longrightarrow> normalized v = Inr zeros"
  by (simp add: normalized_def)

text \<open>
  C7. A vector of nonzero magnitude is normalised to a vector of magnitude 1 that is a
  positive multiple of it (so it points the same way); a vector of magnitude 0 is
  normalised to \<open>zeros\<close>, and in both cases a vector is returned: no division by zero
  takes place.
\<close>

theorem normalized_unit:
  "(magnitude v \<noteq> 0 \<longrightarrow>
      (\<exists>u. normalized v = Inr u \<and> magnitude u = 1 \<and>
           u = vec_mul v (1 / magnitude v) \<and> 0 < 1 / magnitude v)) \<and>
   (magnitude v = 0 \<longrightarrow> normalized v = Inr zeros)"
  using normalized_nonzero [of v] normalized_zero [of v] by blast

theorem normalized_unit_witness:
  "(\<exists>u. normalized \<lparr>x = 3, y = 0\<rparr> = Inr u \<and> magnitude u = 1 \<and>
        u = vec_mul \<lparr>x = 3, y = 0\<rparr> (1 / magnitude \<lparr>x = 3, y = 0\<rparr>)) \<and>
   normalized \<lparr>x = 0, y = 0\<rparr> = Inr zeros"
proof -
  have a: "magnitude \<lparr>x = 3, y = 0\<rparr> \<noteq> 0" by (simp add: magnitude_def)
  have b: "magnitude \<lparr>x = 0, y = 0\<rparr> = 0" by (simp add: magnitude_def)
  show ?thesis
    using normalized_unit [of "\<lparr>x = 3, y = 0\<rparr>"] normalized_unit [of "\<lparr>x = 0, y = 0\<rparr>"] a b
    by blast
qed

subsection \<open>Frame composition and decomposition\<close>

text \<open>
  C9. With the left operand \<open>a\<close> of the composition as the fixed frame, composing and
  decomposing are inverse to each other in exact arithmetic: \<open>(a + b) - a = b\<close> and
  \<open>a + (b - a) = b\<close>, in all four fields.
\<close>

theorem frame_roundtrip_left_operand:
  "kin_sub (kin_add a b) a = b \<and> kin_add a (kin_sub b a) = b"
  by (simp add: kin_sub_def kin_add_def Kinematics_init_def from_copy_id
      vec_add_sub_cancel vec_add_sub_cancel2 rotated_back rotated_forth)

text \<open>
  C10. \<open>Kinematics.zeros()\<close> is a left and a right identity of the composition.
\<close>

theorem kin_zeros_identity:
  "kin_add kin_zeros k = k \<and> kin_add k kin_zeros = k"
  by (simp add: kin_add_def kin_zeros_def from_pose_def Pose_zeros_def Kinematics_init_def
      from_copy_id rotated_zero_angle rotated_zeros vec_add_zeros)

text \<open>
  C1, as stated, fails: with the right operand \<open>b\<close> as the fixed frame the round trips
  do not return \<open>a\<close>. For \<open>a\<close> at position \<open>(1, 0)\<close> with orientation 0 and \<open>b\<close> at
  the origin with orientation \<open>pi\<close>, both \<open>(a + b) - b\<close> and \<open>(a - b) + b\<close> are at
  position \<open>(-1, 0)\<close>: the first component is off by 2, far beyond a rounding error
  (the spec's tolerance is \<open>1e-9\<close>).
\<close>

theorem frame_roundtrip_right_operand_fails:
  "\<not> \<bar>x (position (kin_sub (kin_add
        \<lparr>position = \<lparr>x = 1, y = 0\<rparr>, orientation = 0,
           velocity = \<lparr>x = 0, y = 0\<rparr>, rotation = 0\<rparr>
        \<lparr>position = \<lparr>x = 0, y = 0\<rparr>, orientation = pi,
           velocity = \<lparr>x = 0, y = 0\<rparr>, rotation = 0\<rparr>)
        \<lparr>position = \<lparr>x = 0, y = 0\<rparr>, orientation = pi,
           velocity = \<lparr>x = 0, y = 0\<rparr>, rotation = 0\<rparr>)) - 1\<bar> \<le> 1 / 10 ^ 9 \<and>
   \<not> \<bar>x (position (kin_add (kin_sub
        \<lparr>position = \<lparr>x = 1, y = 0\<rparr>, orientation = 0,
           velocity = \<lparr>x = 0, y = 0\<rparr>, rotation = 0\<rparr>
        \<lparr>position = \<lparr>x = 0, y = 0\<rparr>, orientation = pi,
           velocity = \<lparr>x = 0, y = 0\<rparr>, rotation = 0\<rparr>)
        \<lparr>position = \<lparr>x = 0, y = 0\<rparr>, orientation = pi,
           velocity = \<lparr>x = 0, y = 0\<rparr>, rotation = 0\<rparr>)) - 1\<bar> \<le> 1 / 10 ^ 9"
  by (simp add: kin_sub_def kin_add_def Kinematics_init_def from_copy_def
      vec_add_def vec_sub_def rotated_def)

text \<open>
  C1, amended. For every \<open>a\<close> and \<open>b\<close>, the round trips \<open>(a + b) - b\<close> and
  \<open>(a - b) + b\<close> return the orientation and the rotation of \<open>a\<close>; they return \<open>a\<close>
  in all four fields when the orientations of \<open>a\<close> and of \<open>b\<close> are both zero.
\<close>

theorem frame_roundtrip_right_operand:
  "orientation (kin_sub (kin_add a b) b) = orientation a \<and>
   rotation (kin_sub (kin_add a b) b) = rotation a \<and>
   orientation (kin_add (kin_sub a b) b) = orientation a \<and>
   rotation (kin_add (kin_sub a b) b) = rotation a \<and>
   (orientation a = 0 \<and> orientation b = 0 \<longrightarrow>
      kin_sub (kin_add a b) b = a \<and> kin_add (kin_sub a b) b = a)"
  by (simp add: kin_sub_def kin_add_def Kinematics_init_def from_copy_def
      vec_add_def vec_sub_def rotated_def)

theorem frame_roundtrip_right_operand_witness:
  "kin_sub (kin_add
      \<lparr>position = \<lparr>x = 1, y = 2\<rparr>, orientation = 0,
         velocity = \<lparr>x = 3, y = 4\<rparr>, rotation = 5\<rparr>
      \<lparr>position = \<lparr>x = 6, y = 7\<rparr>, orientation = 0,
         velocity = \<lparr>x = 8, y = 9\<rparr>, rotation = 10\<rparr>)
      \<lparr>position = \<lparr>x = 6, y = 7\<rparr>, orientation = 0,
         velocity = \<lparr>x = 8, y = 9\<rparr>, rotation = 10\<rparr>
   = \<lparr>position = \<lparr>x = 1, y = 2\<rparr>, orientation = 0,
        velocity = \<lparr>x = 3, y = 4\<rparr>, rotation = 5\<rparr>"
  using frame_roundtrip_right_operand
    [of "\<lparr>position = \<lparr>x = 1, y = 2\<rparr>, orientation = 0,
            velocity = \<lparr>x = 3, y = 4\<rparr>, rotation = 5\<rparr>"
        "\<lparr>position = \<lparr>x = 6, y = 7\<rparr>, orientation = 0,
            velocity = \<lparr>x = 8, y = 9\<rparr>, rotation = 10\<rparr>"]
  by simp

subsection \<open>Motion update\<close>

text \<open>
  C2. \<open>updated\<close> adds \<open>rotation * dt\<close> to the orientation and adds to the position
  the displacement \<open>velocity * dt\<close> rotated by that change of orientation (not by the
  orientation at the start of the step). A body at the origin with orientation 0,
  velocity \<open>(1, 0)\<close> and rotation \<open>pi / 2\<close> is, after one unit of time, at \<open>(0, 1)\<close>
  with orientation \<open>pi / 2\<close>.
\<close>

theorem updated_position_orientation:
  "orientation (updated k dt) = orientation k + rotation k * dt \<and>
   position (updated k dt) =
     vec_add (position k) (rotated (vec_mul (velocity k) dt) (rotation k * dt)) \<and>
   updated \<lparr>position = \<lparr>x = 0, y = 0\<rparr>, orientation = 0,
              velocity = \<lparr>x = 1, y = 0\<rparr>, rotation = pi / 2\<rparr> 1
     = \<lparr>position = \<lparr>x = 0, y = 1\<rparr>, orientation = pi / 2,
          velocity = \<lparr>x = 1, y = 0\<rparr>, rotation = pi / 2\<rparr>"
  by (simp add: updated_def Kinematics_init_def from_copy_def Let_def
      vec_add_def vec_mul_def rotated_def)

text \<open>
  C3. \<open>updated\<close> returns the velocity and the rotation of its argument unchanged.
\<close>

theorem updated_carries_velocity_rotation:
  "velocity (updated k dt) = velocity k \<and> rotation (updated k dt) = rotation k"
  by (simp add: updated_def Kinematics_init_def from_copy_def Let_def)

subsection \<open>Angle between two vectors\<close>

lemma dot_self: "dot v v = (magnitude v)\<^sup>2"
  by (simp add: magnitude_def dot_def)

lemma dot_neg: "dot v (vec_neg v) = - (magnitude v)\<^sup>2"
  by (simp add: magnitude_def dot_def vec_neg_def)

lemma magnitude_vec_neg: "magnitude (vec_neg v) = magnitude v"
  by (simp add: magnitude_def vec_neg_def)

text \<open>Cauchy-Schwarz in the plane.\<close>

lemma dot_le_magnitudes: "\<bar>dot w v\<bar> \<le> magnitude w * magnitude v"
proof -
  have "(x w * x v + y w * y v)\<^sup>2 + (x w * y v - y w * x v)\<^sup>2
        = (x w * x w + y w * y w) * (x v * x v + y v * y v)"
    by (simp add: power2_eq_square algebra_simps)
  moreover have "0 \<le> (x w * y v - y w * x v)\<^sup>2"
    by simp
  ultimately have "(dot w v)\<^sup>2 \<le> (x w * x w + y w * y w) * (x v * x v + y v * y v)"
    unfolding dot_def by linarith
  then have "sqrt ((dot w v)\<^sup>2) \<le> sqrt ((x w * x w + y w * y w) * (x v * x v + y v * y v))"
    by (rule real_sqrt_le_mono)
  then show ?thesis
    by (simp add: magnitude_def real_sqrt_mult)
qed

lemma cosine_bounds:
  assumes "magnitude w \<noteq> 0" "magnitude v \<noteq> 0"
  shows "- 1 \<le> dot w v / (magnitude w * magnitude v)"
    and "dot w v / (magnitude w * magnitude v) \<le> 1"
proof -
  have pos: "0 < magnitude w * magnitude v"
    using assms magnitude_nonneg [of w] magnitude_nonneg [of v] by simp
  have b: "\<bar>dot w v\<bar> \<le> magnitude w * magnitude v"
    by (rule dot_le_magnitudes)
  show "dot w v / (magnitude w * magnitude v) \<le> 1"
    using pos b by (simp add: divide_le_eq)
  show "- 1 \<le> dot w v / (magnitude w * magnitude v)"
    using pos b by (simp add: le_divide_eq)
qed

lemma rint_of_int: "rint (of_int n) = n"
  by (simp add: rint_def)

lemma rint_le: "r \<le> of_int n \<Longrightarrow> rint r \<le> n"
proof -
  assume le: "r \<le> of_int n"
  then have f: "\<lfloor>r\<rfloor> \<le> n" by (simp add: floor_le_iff) 
  show ?thesis
  proof (cases "\<lfloor>r\<rfloor> = n")
    case True
    then have "r = of_int n" using le by linarith
    then show ?thesis by (simp add: rint_of_int)
  next
    case False
    then have "\<lfloor>r\<rfloor> + 1 \<le> n" using f by simp
    then show ?thesis using f by (simp add: rint_def Let_def)
  qed
qed

lemma rint_ge: "of_int n \<le> r \<Longrightarrow> n \<le> rint r"
proof -
  assume "of_int n \<le> r"
  then have "n \<le> \<lfloor>r\<rfloor>" by (simp add: le_floor_iff)
  then show ?thesis by (simp add: rint_def Let_def)
qed

lemma round4_bounds:
  assumes "- 1 \<le> c" "c \<le> 1"
  shows "- 1 \<le> round4 c" and "round4 c \<le> 1"
proof -
  have "of_int (- 10000) \<le> c * 10000" using assms by simp
  then have "- 10000 \<le> rint (c * 10000)" by (rule rint_ge)
  then show "- 1 \<le> round4 c" by (simp add: round4_def)
  have "c * 10000 \<le> of_int 10000" using assms by simp
  then have "rint (c * 10000) \<le> 10000" by (rule rint_le)
  then show "round4 c \<le> 1" by (simp add: round4_def)
qed

lemma round4_one: "round4 1 = 1" "round4 (- 1) = - 1"
proof -
  have "rint (of_int 10000) = 10000" by (rule rint_of_int)
  then show "round4 1 = 1" by (simp add: round4_def)
  have "rint (of_int (- 10000)) = - 10000" by (rule rint_of_int)
  then show "round4 (- 1) = - 1" by (simp add: round4_def)
qed

lemma angle_from_nonzero:
  assumes "vec_abs v \<noteq> 0" "vec_abs w \<noteq> 0"
  shows "angle_from v w = Inr (arccos (round4 (dot w v / (vec_abs w * vec_abs v))))"
    and "0 \<le> arccos (round4 (dot w v / (vec_abs w * vec_abs v)))"
    and "arccos (round4 (dot w v / (vec_abs w * vec_abs v))) \<le> pi"
proof -
  let ?c = "dot w v / (vec_abs w * vec_abs v)"
  have c: "- 1 \<le> ?c" "?c \<le> 1"
    using assms cosine_bounds [of w v] by (simp_all add: vec_abs_def)
  then have r: "- 1 \<le> round4 ?c" "round4 ?c \<le> 1"
    by (simp_all add: round4_bounds)
  show "angle_from v w = Inr (arccos (round4 ?c))"
    using assms r by (simp add: angle_from_def float_div_def math_acos_def)
  show "0 \<le> arccos (round4 ?c)" using r by (rule arccos_lbound)
  show "arccos (round4 ?c) \<le> pi" using r by (rule arccos_ubound)
qed

lemma angle_from_zero: "vec_abs v = 0 \<or> vec_abs w = 0 \<Longrightarrow> angle_from v w = Inr 0"
  by (simp add: angle_from_def)

lemma angle_from_self:
  assumes "vec_abs v \<noteq> 0"
  shows "angle_from v v = Inr 0" and "angle_from v (vec_neg v) = Inr pi"
proof -
  have m: "magnitude v \<noteq> 0" using assms by (simp add: vec_abs_def)
  have sq: "magnitude v * magnitude v = dot v v"
    using dot_self [of v] by (simp add: power2_eq_square)
  have nz: "dot v v \<noteq> 0"
    using m sq by auto
  have e: "dot v v / (vec_abs v * vec_abs v) = 1"
    using nz by (simp add: sq vec_abs_def)
  have "angle_from v v = Inr (arccos (round4 1))"
    using angle_from_nonzero(1) [OF assms assms] by (simp only: e)
  then show "angle_from v v = Inr 0"
    by (simp only: round4_one arccos_1)
  have n: "vec_abs (vec_neg v) \<noteq> 0"
    using assms by (simp add: vec_abs_def magnitude_vec_neg)
  have d: "dot (vec_neg v) v = - dot v v"
    by (simp add: dot_def vec_neg_def)
  have e': "dot (vec_neg v) v / (vec_abs (vec_neg v) * vec_abs v) = - 1"
    using nz by (simp add: d sq vec_abs_def magnitude_vec_neg)
  have "angle_from v (vec_neg v) = Inr (arccos (round4 (- 1)))"
    using angle_from_nonzero(1) [OF assms n] by (simp only: e')
  then show "angle_from v (vec_neg v) = Inr pi"
    by (simp only: round4_one arccos_minus_1)
qed

text \<open>
  C6. \<open>angle_from\<close> returns a value in \<open>[0, pi]\<close> for every pair of vectors; it
  returns 0 when one of them has magnitude 0, and otherwise the arc cosine of the cosine
  rounded to four decimals; the angle of a nonzero vector from itself is 0 and from its
  negation \<open>pi\<close>. No case raises or divides by zero.
\<close>

theorem angle_from_range:
  "(\<exists>r. angle_from v w = Inr r \<and> 0 \<le> r \<and> r \<le> pi) \<and>
   (vec_abs v = 0 \<or> vec_abs w = 0 \<longrightarrow> angle_from v w = Inr 0) \<and>
   (vec_abs v \<noteq> 0 \<and> vec_abs w \<noteq> 0 \<longrightarrow>
      angle_from v w = Inr (arccos (round4 (dot w v / (vec_abs w * vec_abs v))))) \<and>
   (vec_abs v \<noteq> 0 \<longrightarrow> angle_from v v = Inr 0 \<and> angle_from v (vec_neg v) = Inr pi)"
proof (intro conjI impI)
  show "\<exists>r. angle_from v w = Inr r \<and> 0 \<le> r \<and> r \<le> pi"
  proof (cases "vec_abs v = 0 \<or> vec_abs w = 0")
    case True
    then show ?thesis by (simp add: angle_from_zero)
  next
    case False
    then show ?thesis using angle_from_nonzero [of v w] by simp
  qed
next
  assume "vec_abs v = 0 \<or> vec_abs w = 0"
  then show "angle_from v w = Inr 0" by (rule angle_from_zero)
next
  assume "vec_abs v \<noteq> 0 \<and> vec_abs w \<noteq> 0"
  then show "angle_from v w = Inr (arccos (round4 (dot w v / (vec_abs w * vec_abs v))))"
    by (simp add: angle_from_nonzero(1))
next
  assume "vec_abs v \<noteq> 0"
  then show "angle_from v v = Inr 0" by (rule angle_from_self(1))
next
  assume "vec_abs v \<noteq> 0"
  then show "angle_from v (vec_neg v) = Inr pi" by (rule angle_from_self(2))
qed


theorem angle_from_range_witness:
  "(\<exists>r. angle_from \<lparr>x = 1, y = 0\<rparr> \<lparr>x = 0, y = 2\<rparr> = Inr r \<and> 0 \<le> r \<and> r \<le> pi) \<and>
   angle_from \<lparr>x = 1, y = 0\<rparr> \<lparr>x = 0, y = 2\<rparr>
     = Inr (arccos (round4 (dot \<lparr>x = 0, y = 2\<rparr> \<lparr>x = 1, y = 0\<rparr>
         / (vec_abs \<lparr>x = 0, y = 2\<rparr> * vec_abs \<lparr>x = 1, y = 0\<rparr>)))) \<and>
   angle_from \<lparr>x = 1, y = 0\<rparr> \<lparr>x = 1, y = 0\<rparr> = Inr 0 \<and>
   angle_from \<lparr>x = 1, y = 0\<rparr> (vec_neg \<lparr>x = 1, y = 0\<rparr>) = Inr pi \<and>
   angle_from \<lparr>x = 0, y = 0\<rparr> \<lparr>x = 0, y = 2\<rparr> = Inr 0"
proof -
  have a: "vec_abs \<lparr>x = 1, y = 0\<rparr> \<noteq> 0" by (simp add: vec_abs_def magnitude_def)
  have b: "vec_abs \<lparr>x = 0, y = 2\<rparr> \<noteq> 0" by (simp add: vec_abs_def magnitude_def)
  have c: "vec_abs \<lparr>x = 0, y = 0\<rparr> = 0" by (simp add: vec_abs_def magnitude_def)
  show ?thesis
    using angle_from_range [of "\<lparr>x = 1, y = 0\<rparr>" "\<lparr>x = 0, y = 2\<rparr>"]
      angle_from_range [of "\<lparr>x = 0, y = 0\<rparr>" "\<lparr>x = 0, y = 2\<rparr>"] a b c
    by blast
qed

subsection \<open>Displacement to stop\<close>

lemma vec_mul_vec_mul: "vec_mul (vec_mul v a) b = vec_mul v (a * b)"
  by (simp add: vec_mul_def)

lemma vec_mul_one: "vec_mul v 1 = v"
  by (simp add: vec_mul_def)

lemma vec_mul_zeros: "vec_mul zeros c = zeros"
  by (simp add: vec_mul_def zeros_def)

lemma magnitude_zeros: "magnitude zeros = 0"
  by (simp add: magnitude_def zeros_def)

lemma scaled_unit:
  assumes "magnitude n = 1" "0 < c"
  shows "magnitude (vec_mul n c) = c" and "normalized (vec_mul n c) = Inr n"
proof -
  show m: "magnitude (vec_mul n c) = c"
    using assms by (simp add: magnitude_vec_mul)
  have "c \<noteq> 0" using assms by simp
  then have "vec_mul (vec_mul n c) (1 / c) = n"
    by (simp add: vec_mul_def)
  moreover have "normalized (vec_mul n c) = Inr (vec_mul (vec_mul n c) (1 / magnitude (vec_mul n c)))"
    using assms m by (intro normalized_nonzero(1)) simp
  ultimately show "normalized (vec_mul n c) = Inr n"
    by (simp add: m)
qed

lemma delta_position_to_stop_general:
  assumes d: "0 < d"
  shows "\<exists>n r. normalized (velocity k) = Inr n \<and>
           delta_position_to_stop k d = Inr r \<and>
           r = vec_mul n ((vec_abs (velocity k))\<^sup>2 / (2 * d)) \<and>
           magnitude r = (vec_abs (velocity k))\<^sup>2 / (2 * d) \<and>
           normalized r = Inr n"
proof (cases "magnitude (velocity k) = 0")
  case True
  have n: "normalized (velocity k) = Inr zeros"
    using True by (rule normalized_zero)
  have r: "delta_position_to_stop k d = Inr (vec_mul zeros ((vec_abs (velocity k))\<^sup>2 / (2 * d)))"
    using d by (simp add: delta_position_to_stop_def n vec_truediv_eq vec_mul_vec_mul)
  show ?thesis
    using n r True
    by (simp add: vec_mul_zeros magnitude_zeros vec_abs_def normalized_zero)
next
  case False
  let ?m = "magnitude (velocity k)"
  let ?n = "vec_mul (velocity k) (1 / ?m)"
  let ?c = "?m\<^sup>2 / (2 * d)"
  have mpos: "0 < ?m"
    using False magnitude_nonneg [of "velocity k"] by simp
  have cpos: "0 < ?c"
    using mpos d by simp
  have n: "normalized (velocity k) = Inr ?n"
    using False by (rule normalized_nonzero(1))
  have n1: "magnitude ?n = 1"
    using False by (rule normalized_nonzero(2))
  have r: "delta_position_to_stop k d = Inr (vec_mul ?n ?c)"
    using d by (simp add: delta_position_to_stop_def n vec_truediv_eq vec_mul_vec_mul vec_abs_def)
  have mr: "magnitude (vec_mul ?n ?c) = ?c"
    using n1 cpos by (rule scaled_unit(1))
  have nr: "normalized (vec_mul ?n ?c) = Inr ?n"
    using n1 cpos by (rule scaled_unit(2))
  show ?thesis
    using n r mr nr by (simp add: vec_abs_def)
qed

lemma magnitude_3_4: "magnitude \<lparr>x = 3, y = 4\<rparr> = 5"
proof -
  have "sqrt 25 = sqrt (5\<^sup>2)" by simp
  also have "\<dots> = 5" by (simp only: real_sqrt_abs abs_numeral)
  finally show ?thesis by (simp add: magnitude_def)
qed

lemma delta_position_to_stop_3_4:
  assumes "velocity k = \<lparr>x = 3, y = 4\<rparr>"
  shows "delta_position_to_stop k 1 = Inr \<lparr>x = 15 / 2, y = 10\<rparr>"
    and "magnitude \<lparr>x = 15 / 2, y = 10\<rparr> = 25 / 2"
    and "normalized \<lparr>x = 15 / 2, y = 10\<rparr> = Inr \<lparr>x = 3 / 5, y = 4 / 5\<rparr>"
proof -
  have n: "normalized \<lparr>x = 3, y = 4\<rparr> = Inr \<lparr>x = 3 / 5, y = 4 / 5\<rparr>"
    by (simp add: normalized_def magnitude_3_4 vec_truediv_def)
  show r: "delta_position_to_stop k 1 = Inr \<lparr>x = 15 / 2, y = 10\<rparr>"
    by (simp add: delta_position_to_stop_def assms n vec_abs_def magnitude_3_4
        vec_truediv_def vec_mul_def)
  obtain n' r' where g: "normalized (velocity k) = Inr n'" "delta_position_to_stop k 1 = Inr r'"
      "magnitude r' = (vec_abs (velocity k))\<^sup>2 / (2 * 1)" "normalized r' = Inr n'"
    using delta_position_to_stop_general [of 1 k] by auto
  have "r' = \<lparr>x = 15 / 2, y = 10\<rparr>" using g(2) r by simp
  moreover have "n' = \<lparr>x = 3 / 5, y = 4 / 5\<rparr>" using g(1) n assms by simp
  ultimately show "magnitude \<lparr>x = 15 / 2, y = 10\<rparr> = 25 / 2"
    and "normalized \<lparr>x = 15 / 2, y = 10\<rparr> = Inr \<lparr>x = 3 / 5, y = 4 / 5\<rparr>"
    using g(3,4) assms by (simp_all add: vec_abs_def magnitude_3_4)
qed

text \<open>
  C4. For a positive deceleration \<open>d\<close>, \<open>delta_position_to_stop\<close> returns the
  normalised velocity scaled by \<open>|velocity|\<^sup>2 / (2 d)\<close>: a vector of that magnitude whose
  normalisation is the normalisation of the velocity. With velocity \<open>(3, 4)\<close> and \<open>d = 1\<close>
  it is \<open>(7.5, 10)\<close>, of magnitude 12.5 and direction \<open>(0.6, 0.8)\<close>.
\<close>

theorem delta_position_to_stop_value:
  "(0 < d \<longrightarrow>
      (\<exists>n r. normalized (velocity k) = Inr n \<and>
             delta_position_to_stop k d = Inr r \<and>
             r = vec_mul n ((vec_abs (velocity k))\<^sup>2 / (2 * d)) \<and>
             magnitude r = (vec_abs (velocity k))\<^sup>2 / (2 * d) \<and>
             normalized r = Inr n)) \<and>
   (velocity k' = \<lparr>x = 3, y = 4\<rparr> \<longrightarrow>
      delta_position_to_stop k' 1 = Inr \<lparr>x = 15 / 2, y = 10\<rparr> \<and>
      magnitude \<lparr>x = 15 / 2, y = 10\<rparr> = 25 / 2 \<and>
      normalized \<lparr>x = 15 / 2, y = 10\<rparr> = Inr \<lparr>x = 3 / 5, y = 4 / 5\<rparr>)"
proof (intro conjI impI)
  assume "0 < d"
  then show "\<exists>n r. normalized (velocity k) = Inr n \<and>
             delta_position_to_stop k d = Inr r \<and>
             r = vec_mul n ((vec_abs (velocity k))\<^sup>2 / (2 * d)) \<and>
             magnitude r = (vec_abs (velocity k))\<^sup>2 / (2 * d) \<and>
             normalized r = Inr n"
    by (rule delta_position_to_stop_general)
next
  assume v: "velocity k' = \<lparr>x = 3, y = 4\<rparr>"
  show "delta_position_to_stop k' 1 = Inr \<lparr>x = 15 / 2, y = 10\<rparr>"
    using v by (rule delta_position_to_stop_3_4(1))
  show "magnitude \<lparr>x = 15 / 2, y = 10\<rparr> = 25 / 2"
    using v by (rule delta_position_to_stop_3_4(2))
  show "normalized \<lparr>x = 15 / 2, y = 10\<rparr> = Inr \<lparr>x = 3 / 5, y = 4 / 5\<rparr>"
    using v by (rule delta_position_to_stop_3_4(3))
qed

theorem delta_position_to_stop_value_witness:
  "delta_position_to_stop
       \<lparr>position = \<lparr>x = 0, y = 0\<rparr>, orientation = 0,
          velocity = \<lparr>x = 3, y = 4\<rparr>, rotation = 0\<rparr> 1
     = Inr \<lparr>x = 15 / 2, y = 10\<rparr> \<and>
   magnitude \<lparr>x = 15 / 2, y = 10\<rparr> = 25 / 2 \<and>
   normalized \<lparr>x = 15 / 2, y = 10\<rparr> = Inr \<lparr>x = 3 / 5, y = 4 / 5\<rparr> \<and>
   (\<exists>n r. normalized \<lparr>x = 3, y = 4\<rparr> = Inr n \<and>
      delta_position_to_stop
       \<lparr>position = \<lparr>x = 0, y = 0\<rparr>, orientation = 0,
          velocity = \<lparr>x = 3, y = 4\<rparr>, rotation = 0\<rparr> 1
        = Inr r \<and>
      r = vec_mul n ((vec_abs \<lparr>x = 3, y = 4\<rparr>)\<^sup>2 / (2 * 1)) \<and>
      magnitude r = (vec_abs \<lparr>x = 3, y = 4\<rparr>)\<^sup>2 / (2 * 1) \<and>
      normalized r = Inr n)"
proof -
  let ?k = "\<lparr>position = \<lparr>x = 0, y = 0\<rparr>, orientation = 0,
          velocity = \<lparr>x = 3, y = 4\<rparr>, rotation = 0\<rparr>"
  have d: "(0::real) < 1" by simp
  have v: "velocity ?k = \<lparr>x = 3, y = 4\<rparr>" by simp
  note t = delta_position_to_stop_value [of 1 ?k ?k]
  have g: "\<exists>n r. normalized (velocity ?k) = Inr n \<and>
             delta_position_to_stop ?k 1 = Inr r \<and>
             r = vec_mul n ((vec_abs (velocity ?k))\<^sup>2 / (2 * 1)) \<and>
             magnitude r = (vec_abs (velocity ?k))\<^sup>2 / (2 * 1) \<and>
             normalized r = Inr n"
    using t d by blast
  have e: "delta_position_to_stop ?k 1 = Inr \<lparr>x = 15 / 2, y = 10\<rparr> \<and>
      magnitude \<lparr>x = 15 / 2, y = 10\<rparr> = 25 / 2 \<and>
      normalized \<lparr>x = 15 / 2, y = 10\<rparr> = Inr \<lparr>x = 3 / 5, y = 4 / 5\<rparr>"
    using t v by blast
  show ?thesis
    using g e by (simp only: v)
qed

subsection \<open>Division of a vector by a scalar\<close>

lemma np_div_by_zero:
  assumes "is_zero t"
  shows "np_div a t =
           (if is_nan a \<or> is_zero a then NaN else signed_inf (sign_bit a \<noteq> sign_bit t))"
  using assms by (auto simp add: np_div_def ieee_div_def is_zero_def is_nan_def is_inf_def)

lemma non_finite_special: "non_finite NaN" "non_finite (signed_inf b)"
  by (simp_all add: non_finite_def signed_inf_def is_inf_def is_nan_def)

lemma np_div_finite:
  "s \<noteq> 0 \<Longrightarrow> val (np_div (Fin a) (Fin s)) = a / s \<and> \<not> non_finite (np_div (Fin a) (Fin s))"
  by (simp add: np_div_def ieee_div_def is_zero_def is_nan_def is_inf_def non_finite_def
      signed_zero_def)

text \<open>
  C8. The division of a vector by a scalar raises nothing. In the exact reading its only
  outcome besides a vector is \<open>NonFinite\<close>, for the scalar 0. In the IEEE reading the
  division by a zero of either sign returns a vector whose components are infinities or
  NaN: NaN where the component is a zero or NaN, and otherwise the infinity whose sign is
  the product of the two signs.
\<close>

theorem vec_truediv_never_raises:
  "vec_truediv v s \<noteq> Inl ZeroDivisionError \<and> vec_truediv v s \<noteq> Inl ValueError \<and>
   vec_truediv v 0 = Inl NonFinite \<and>
   (is_zero t \<longrightarrow>
      x (vec_truediv_ieee w t) =
        (if is_nan (x w) \<or> is_zero (x w) then NaN
         else signed_inf (sign_bit (x w) \<noteq> sign_bit t)) \<and>
      y (vec_truediv_ieee w t) =
        (if is_nan (y w) \<or> is_zero (y w) then NaN
         else signed_inf (sign_bit (y w) \<noteq> sign_bit t)) \<and>
      non_finite (x (vec_truediv_ieee w t)) \<and> non_finite (y (vec_truediv_ieee w t)))"
  by (simp add: vec_truediv_def vec_truediv_ieee_def np_div_by_zero non_finite_special)

theorem vec_truediv_never_raises_witness:
  "vec_truediv_ieee \<lparr>x = Fin 1, y = Fin 0\<rparr> (Fin 0) = \<lparr>x = PInf, y = NaN\<rparr> \<and>
   vec_truediv_ieee \<lparr>x = Fin (- 1), y = NInf\<rparr> (Fin 0) = \<lparr>x = NInf, y = NInf\<rparr> \<and>
   vec_truediv \<lparr>x = 1, y = 0\<rparr> 0 = Inl NonFinite"
proof -
  have z: "is_zero (Fin 0)" by (simp add: is_zero_def)
  have a: "vec_truediv_ieee \<lparr>x = Fin 1, y = Fin 0\<rparr> (Fin 0) = \<lparr>x = PInf, y = NaN\<rparr>"
    using vec_truediv_never_raises [of "\<lparr>x = 1, y = 0\<rparr>" 0 "Fin 0" "\<lparr>x = Fin 1, y = Fin 0\<rparr>"] z
    by (simp add: vec_truediv_ieee_def is_nan_def is_zero_def signed_inf_def)
  have b: "vec_truediv_ieee \<lparr>x = Fin (- 1), y = NInf\<rparr> (Fin 0) = \<lparr>x = NInf, y = NInf\<rparr>"
    using vec_truediv_never_raises [of "\<lparr>x = 1, y = 0\<rparr>" 0 "Fin 0" "\<lparr>x = Fin (- 1), y = NInf\<rparr>"] z
    by (simp add: vec_truediv_ieee_def is_nan_def is_zero_def signed_inf_def)
  show ?thesis
    using a b vec_truediv_never_raises [of "\<lparr>x = 1, y = 0\<rparr>" 0 "Fin 0" "\<lparr>x = Fin 1, y = Fin 0\<rparr>"]
    by simp
qed

subsection \<open>Rotation to stop\<close>

lemma stop_divisor:
  "0 < d \<Longrightarrow> ieee_mul (Fin 2) (Fin d) = Fin (2 * d)"
  by (simp add: ieee_mul_def is_nan_def is_inf_def is_zero_def)

lemma py_pow2_Fin: "py_pow2 (Fin r) = Fin (r\<^sup>2)"
  by (simp add: py_pow2_def ieee_mul_def is_nan_def is_inf_def is_zero_def signed_zero_def
      power2_eq_square)

lemma stop_quotient:
  "0 < d \<Longrightarrow> py_div (Fin q) (Fin (2 * d)) =
     Inr (if q = 0 then Fin 0 else Fin (q / (2 * d)))"
  by (simp add: py_div_def ieee_div_def is_nan_def is_inf_def is_zero_def signed_zero_def)

lemma stop_value:
  assumes "0 < d" "is_zero a \<or> a = Fin r"
  shows "py_div (py_pow2 (py_abs a)) (ieee_mul (Fin 2) (Fin d)) = Inr (Fin ((val a)\<^sup>2 / (2 * d)))"
proof -
  have "py_abs a = Fin \<bar>val a\<bar>"
    using assms(2) by (auto simp add: is_zero_def)
  then have "py_pow2 (py_abs a) = Fin ((val a)\<^sup>2)"
    by (simp add: py_pow2_Fin)
  then show ?thesis
    using assms(1) by (simp add: stop_divisor stop_quotient)
qed

lemma delta_orientation_to_stop_Fin:
  assumes "0 < d" "rotation k = Fin r"
  shows "delta_orientation_to_stop k (Fin d) =
           Inr (if 0 < r then Fin (r\<^sup>2 / (2 * d)) else py_neg (Fin (r\<^sup>2 / (2 * d))))"
proof -
  have "py_div (py_pow2 (py_abs (rotation k))) (ieee_mul (Fin 2) (Fin d))
          = Inr (Fin (r\<^sup>2 / (2 * d)))"
    using stop_value [of d "rotation k" r] assms by simp
  moreover have "py_gt (rotation k) (Fin 0) = (0 < r)"
    using assms by (simp add: py_gt_def is_nan_def)
  ultimately show ?thesis
    by (simp add: delta_orientation_to_stop_def)
qed

lemma delta_orientation_to_stop_NegZero:
  assumes "0 < d" "rotation k = NegZero"
  shows "delta_orientation_to_stop k (Fin d) = Inr NegZero"
proof -
  have "py_div (py_pow2 (py_abs (rotation k))) (ieee_mul (Fin 2) (Fin d)) = Inr (Fin 0)"
    using stop_value [of d "rotation k" 0] assms by (simp add: is_zero_def)
  moreover have "\<not> py_gt (rotation k) (Fin 0)"
    using assms by (simp add: py_gt_def is_nan_def)
  ultimately show ?thesis
    by (simp add: delta_orientation_to_stop_def)
qed

text \<open>
  C5, as stated, fails at rotation \<open>0.0\<close>: the quotient is the positive zero, the test
  \<^verbatim>\<open>rotation > 0.0\<close> is false, and the negated quotient is returned, which is the
  negative zero.
\<close>

theorem delta_orientation_to_stop_zero_rotation:
  "delta_orientation_to_stop
      \<lparr>position = \<lparr>x = Fin 0, y = Fin 0\<rparr>, orientation = Fin 0,
         velocity = \<lparr>x = Fin 0, y = Fin 0\<rparr>, rotation = Fin 0\<rparr> (Fin 1) = Inr NegZero \<and>
   delta_orientation_to_stop
      \<lparr>position = \<lparr>x = Fin 0, y = Fin 0\<rparr>, orientation = Fin 0,
         velocity = \<lparr>x = Fin 0, y = Fin 0\<rparr>, rotation = Fin 0\<rparr> (Fin 1) \<noteq> Inr (Fin 0)"
  by (simp add: delta_orientation_to_stop_def py_div_def ieee_div_def ieee_mul_def py_pow2_def
      py_gt_def is_nan_def is_inf_def is_zero_def signed_zero_def)

text \<open>
  C5, amended. For a positive deceleration \<open>d\<close>, \<open>delta_orientation_to_stop\<close> returns
  \<open>rotation\<^sup>2 / (2 d)\<close>, a positive number, when the rotation is positive; its negation
  when the rotation is negative; and the negative zero when the rotation is a zero (of
  either sign).
\<close>

theorem delta_orientation_to_stop_sign:
  "0 < d \<Longrightarrow>
   (rotation k = Fin r \<and> 0 < r \<longrightarrow>
      delta_orientation_to_stop k (Fin d) = Inr (Fin (r\<^sup>2 / (2 * d))) \<and> 0 < r\<^sup>2 / (2 * d)) \<and>
   (rotation k = Fin r \<and> r < 0 \<longrightarrow>
      delta_orientation_to_stop k (Fin d) = Inr (Fin (- (r\<^sup>2 / (2 * d)))) \<and>
      - (r\<^sup>2 / (2 * d)) < 0) \<and>
   (is_zero (rotation k) \<longrightarrow> delta_orientation_to_stop k (Fin d) = Inr NegZero)"
proof (intro conjI impI)
  assume d: "0 < d" and h: "rotation k = Fin r \<and> 0 < r"
  show "delta_orientation_to_stop k (Fin d) = Inr (Fin (r\<^sup>2 / (2 * d)))"
    using d h delta_orientation_to_stop_Fin [of d k r] by simp
  show "0 < r\<^sup>2 / (2 * d)" using d h by simp
next
  assume d: "0 < d" and h: "rotation k = Fin r \<and> r < 0"
  show "delta_orientation_to_stop k (Fin d) = Inr (Fin (- (r\<^sup>2 / (2 * d))))"
    using d h delta_orientation_to_stop_Fin [of d k r] by simp
  show "- (r\<^sup>2 / (2 * d)) < 0" using d h by simp
next
  assume d: "0 < d" and h: "is_zero (rotation k)"
  show "delta_orientation_to_stop k (Fin d) = Inr NegZero"
    using d h delta_orientation_to_stop_Fin [of d k 0] delta_orientation_to_stop_NegZero [of d k]
    by (auto simp add: is_zero_def)
qed

theorem delta_orientation_to_stop_sign_witness:
  "delta_orientation_to_stop
      \<lparr>position = \<lparr>x = Fin 0, y = Fin 0\<rparr>, orientation = Fin 0,
         velocity = \<lparr>x = Fin 0, y = Fin 0\<rparr>, rotation = Fin 3\<rparr> (Fin 1) = Inr (Fin (9 / 2)) \<and>
   delta_orientation_to_stop
      \<lparr>position = \<lparr>x = Fin 0, y = Fin 0\<rparr>, orientation = Fin 0,
         velocity = \<lparr>x = Fin 0, y = Fin 0\<rparr>, rotation = Fin (- 3)\<rparr> (Fin 1) = Inr (Fin (- (9 / 2))) \<and>
   delta_orientation_to_stop
      \<lparr>position = \<lparr>x = Fin 0, y = Fin 0\<rparr>, orientation = Fin 0,
         velocity = \<lparr>x = Fin 0, y = Fin 0\<rparr>, rotation = NegZero\<rparr> (Fin 1) = Inr NegZero"
proof -
  have d: "(0::real) < 1" by simp
  have z: "is_zero NegZero" by (simp add: is_zero_def)
  show ?thesis
    using delta_orientation_to_stop_sign [OF d,
        of "\<lparr>position = \<lparr>x = Fin 0, y = Fin 0\<rparr>, orientation = Fin 0,
              velocity = \<lparr>x = Fin 0, y = Fin 0\<rparr>, rotation = Fin 3\<rparr>" 3]
      delta_orientation_to_stop_sign [OF d,
        of "\<lparr>position = \<lparr>x = Fin 0, y = Fin 0\<rparr>, orientation = Fin 0,
              velocity = \<lparr>x = Fin 0, y = Fin 0\<rparr>, rotation = Fin (- 3)\<rparr>" "- 3"]
      delta_orientation_to_stop_sign [OF d,
        of "\<lparr>position = \<lparr>x = Fin 0, y = Fin 0\<rparr>, orientation = Fin 0,
              velocity = \<lparr>x = Fin 0, y = Fin 0\<rparr>, rotation = NegZero\<rparr>" 0] z
    by simp
qed

end
